theory Spec2Isabelle
  imports Complex_Main
begin

section \<open>Python values\<close>

text \<open>
  The program is Python. Every value it handles (the decoded JSON payload, the
  coordinates handed to \<open>get_boundary_box\<close>, the results of its properties) is one of
  the objects \<open>json.loads\<close> can build: \<open>None\<close>, a bool, an unbounded int, a float, a
  str, a list or a dict with str keys. A dict is an association list whose first
  entry for a key is the one a lookup finds. Strings are \<open>char\<close> lists; the models of
  the builtins below are exact on ASCII text.

  Exceptions are values: a computation that can raise returns \<open>py_error + 'a\<close>, the
  error on the left.
\<close>

datatype py_error = KeyError | IndexError | TypeError | ValueError | OverflowError

text \<open>
  A float is an IEEE 754 double: a sign and a magnitude (a rational, so that the
  value is exact), an infinity, or a NaN. \<open>Finite True 0\<close> is \<open>-0.0\<close>.
\<close>

datatype pyfloat = Finite bool rat | Infinite bool | NaN

datatype pyobj =
    PyNone
  | PyBool bool
  | PyInt int
  | PyFloat pyfloat
  | PyStr string
  | PyList "pyobj list"
  | PyDict "(string \<times> pyobj) list"

subsection \<open>Rounding to a double\<close>

definition pow_int :: "rat \<Rightarrow> int \<Rightarrow> rat" where
  "pow_int b e = (if 0 \<le> e then b ^ nat e else 1 / b ^ nat (- e))"

definition round_half_even :: "rat \<Rightarrow> int" where
  "round_half_even q =
     (let f = \<lfloor>q\<rfloor>; d = q - of_int f
      in if d < 1 / 2 then f
         else if 1 / 2 < d then f + 1
         else if even f then f else f + 1)"

text \<open>The number of digits of a positive integer in base \<open>b\<close>.\<close>

function num_digits :: "int \<Rightarrow> int \<Rightarrow> nat" where
  "num_digits b n = (if n \<le> 0 \<or> b < 2 then 0 else Suc (num_digits b (n div b)))"
  by pat_completeness auto
termination
  by (relation "measure (\<lambda>(b, n). nat n)") (auto simp: div_int_pos_iff intro!: int_div_less_self)

declare num_digits.simps [simp del]

text \<open>The largest \<open>e\<close> with \<open>b ^ e \<le> q\<close>, for a positive \<open>q\<close>.\<close>

definition floor_log :: "int \<Rightarrow> rat \<Rightarrow> int" where
  "floor_log b q =
     (let (a, d) = quotient_of q;
          e0 = int (num_digits b a) - int (num_digits b d)
      in if pow_int (of_int b) e0 \<le> q then e0 else e0 - 1)"

text \<open>
  The double nearest to a magnitude, ties to the even mantissa: 53 bits of
  precision, exponents down to the subnormal \<open>2 ^ -1074\<close>; \<open>None\<close> when the result
  would be \<open>2 ^ 1024\<close> or more, that is, when its binary exponent is 1024 or more
  (overflow).
\<close>

definition to_double :: "rat \<Rightarrow> rat option" where
  "to_double m =
     (if m \<le> 0 then Some 0
      else let e = floor_log 2 m;
               q = max (e - 52) (- 1074);
               r = of_int (round_half_even (m / pow_int 2 q)) * pow_int 2 q
           in if 1024 \<le> floor_log 2 r then None else Some r)"

definition mk_float :: "bool \<Rightarrow> rat \<Rightarrow> pyfloat" where
  "mk_float neg m = (case to_double m of None \<Rightarrow> Infinite neg | Some r \<Rightarrow> Finite neg r)"

subsection \<open>Text helpers\<close>

definition digit_char :: "int \<Rightarrow> char" where
  "digit_char d = char_of (48 + d)"

text \<open>The decimal digits of an integer that is not negative.\<close>

function show_nat :: "int \<Rightarrow> string" where
  "show_nat n = (if n < 10 then [digit_char n] else show_nat (n div 10) @ [digit_char (n mod 10)])"
  by pat_completeness auto
termination
  by (relation "measure nat") (auto intro!: int_div_less_self)

declare show_nat.simps [simp del]

definition show_int :: "int \<Rightarrow> string" where
  "show_int i = (if i < 0 then CHR ''-'' # show_nat (- i) else show_nat i)"

definition is_digit :: "char \<Rightarrow> bool" where
  "is_digit c = (48 \<le> (of_char c :: nat) \<and> (of_char c :: nat) \<le> 57)"

definition digit_val :: "char \<Rightarrow> int" where
  "digit_val c = of_char c - 48"

definition digits_val :: "string \<Rightarrow> int" where
  "digits_val ds = foldl (\<lambda>acc c. 10 * acc + digit_val c) 0 ds"

fun join :: "string \<Rightarrow> string list \<Rightarrow> string" where
  "join sep [] = []"
| "join sep [x] = x"
| "join sep (x # y # ys) = x @ sep @ join sep (y # ys)"

definition zfill :: "nat \<Rightarrow> string \<Rightarrow> string" where
  "zfill n s = replicate (n - length s) CHR ''0'' @ s"

definition lower :: "char \<Rightarrow> char" where
  "lower c = (if 65 \<le> (of_char c :: nat) \<and> (of_char c :: nat) \<le> 90 then char_of ((of_char c :: nat) + 32) else c)"

subsection \<open>\<open>str\<close> and \<open>repr\<close>\<close>

text \<open>
  \<open>repr\<close> of a float is the shortest decimal numeral that reads back as the same
  double. For each number of digits from 1 to 16 the two neighbouring numerals are
  tried; 17 digits always read back. The result is the integer of the digits and
  the power of ten it is scaled by.
\<close>

fun shortest_digits :: "nat \<Rightarrow> nat \<Rightarrow> rat \<Rightarrow> int \<times> int" where
  "shortest_digits 0 n m =
     (let x = floor_log 10 m - int n + 1 in (round_half_even (m / pow_int 10 x), x))"
| "shortest_digits (Suc k) n m =
     (let x = floor_log 10 m - int n + 1;
          s = pow_int 10 x;
          lo = \<lfloor>m / s\<rfloor>;
          oklo = (to_double (of_int lo * s) = Some m);
          okhi = (to_double (of_int (lo + 1) * s) = Some m)
      in if oklo \<and> okhi then (round_half_even (m / s), x)
         else if oklo then (lo, x)
         else if okhi then (lo + 1, x)
         else shortest_digits k (Suc n) m)"

definition strip_zeros :: "string \<Rightarrow> string" where
  "strip_zeros ds = rev (dropWhile (\<lambda>c. c = CHR ''0'') (rev ds))"

definition float_repr_finite :: "rat \<Rightarrow> string" where
  "float_repr_finite m =
     (if m = 0 then ''0.0''
      else let (d, x) = shortest_digits 16 1 m;
               full = show_nat d;
               decpt = int (length full) + x;
               ds = strip_zeros full;
               nd = int (length ds)
           in if decpt \<le> - 4 \<or> 16 < decpt then
                take 1 ds @ (if 1 < nd then CHR ''.'' # drop 1 ds else [])
                  @ ''e'' @ (if decpt - 1 < 0 then ''-'' else ''+'')
                  @ zfill 2 (show_nat \<bar>decpt - 1\<bar>)
              else if decpt \<le> 0 then ''0.'' @ replicate (nat (- decpt)) CHR ''0'' @ ds
              else if nd \<le> decpt then ds @ replicate (nat (decpt - nd)) CHR ''0'' @ ''.0''
              else take (nat decpt) ds @ ''.'' @ drop (nat decpt) ds)"

fun float_repr :: "pyfloat \<Rightarrow> string" where
  "float_repr NaN = ''nan''"
| "float_repr (Infinite neg) = (if neg then ''-inf'' else ''inf'')"
| "float_repr (Finite neg m) = (if neg then ''-'' else []) @ float_repr_finite m"

text \<open>
  \<open>repr\<close> of a str: single quotes unless the text has a single quote and no double
  quote; the quote and the backslash are escaped, tab, newline and return by their
  letters, the other control characters by their hexadecimal code. Bytes from 128
  on are kept.
\<close>

definition hex_digit :: "nat \<Rightarrow> char" where
  "hex_digit d = (if d < 10 then char_of (48 + d) else char_of (87 + d))"

definition repr_char :: "char \<Rightarrow> char \<Rightarrow> string" where
  "repr_char quote c =
     (let n = (of_char c :: nat)
      in if c = quote \<or> c = CHR 0x5C then [CHR 0x5C, c]
         else if n = 9 then [CHR 0x5C, CHR ''t'']
         else if n = 10 then [CHR 0x5C, CHR ''n'']
         else if n = 13 then [CHR 0x5C, CHR ''r'']
         else if n < 32 \<or> n = 127 then [CHR 0x5C, CHR ''x'', hex_digit (n div 16), hex_digit (n mod 16)]
         else [c])"

definition str_repr :: "string \<Rightarrow> string" where
  "str_repr s =
     (let quote = (if CHR 0x27 \<in> set s \<and> CHR 0x22 \<notin> set s then CHR 0x22 else CHR 0x27)
      in quote # concat (map (repr_char quote) s) @ [quote])"

fun py_repr :: "pyobj \<Rightarrow> string" where
  "py_repr PyNone = ''None''"
| "py_repr (PyBool b) = (if b then ''True'' else ''False'')"
| "py_repr (PyInt i) = show_int i"
| "py_repr (PyFloat f) = float_repr f"
| "py_repr (PyStr s) = str_repr s"
| "py_repr (PyList xs) = ''['' @ join '', '' (map py_repr xs) @ '']''"
| "py_repr (PyDict kvs) =
     ''{'' @ join '', '' (map (\<lambda>kv. str_repr (fst kv) @ '': '' @ py_repr (snd kv)) kvs) @ ''}''"

fun py_str :: "pyobj \<Rightarrow> string" where
  "py_str (PyStr s) = s"
| "py_str v = py_repr v"

section \<open>The Stookwijzer object\<close>

subsection \<open>Subscripting\<close>

text \<open>
  \<open>obj[key]\<close> with a str key: a dict looks the key up and raises \<open>KeyError\<close> when it
  is missing; a list or a str raises \<open>TypeError\<close> (their indices must be integers);
  \<open>None\<close>, a bool and a number are not subscriptable, \<open>TypeError\<close> again.
\<close>

fun getitem_str :: "pyobj \<Rightarrow> string \<Rightarrow> py_error + pyobj" where
  "getitem_str (PyDict kvs) key = (case map_of kvs key of None \<Rightarrow> Inl KeyError | Some v \<Rightarrow> Inr v)"
| "getitem_str obj key = Inl TypeError"

text \<open>
  \<open>obj[i]\<close> with an int: a dict with str keys has no such key; a list and a str
  count a negative index from the end and raise \<open>IndexError\<close> out of range.
\<close>

definition index_of :: "nat \<Rightarrow> int \<Rightarrow> nat option" where
  "index_of n i =
     (let j = (if i < 0 then int n + i else i)
      in if 0 \<le> j \<and> j < int n then Some (nat j) else None)"

fun getitem_int :: "pyobj \<Rightarrow> int \<Rightarrow> py_error + pyobj" where
  "getitem_int (PyDict kvs) i = Inl KeyError"
| "getitem_int (PyList xs) i =
     (case index_of (length xs) i of None \<Rightarrow> Inl IndexError | Some j \<Rightarrow> Inr (xs ! j))"
| "getitem_int (PyStr s) i =
     (case index_of (length s) i of None \<Rightarrow> Inl IndexError | Some j \<Rightarrow> Inr (PyStr [s ! j]))"
| "getitem_int obj i = Inl TypeError"

definition bind_err :: "py_error + 'a \<Rightarrow> ('a \<Rightarrow> py_error + 'b) \<Rightarrow> py_error + 'b" where
  "bind_err r f = (case r of Inl e \<Rightarrow> Inl e | Inr x \<Rightarrow> f x)"

subsection \<open>State\<close>

text \<open>
  A \<open>datetime\<close>: the wall-clock reading in microseconds since 0001-01-01 00:00:00
  and, for an aware one, the offset from UTC in seconds.
\<close>

record datetime =
  wall :: int
  utcoffset :: "int option"

text \<open>
  The fields of the object: \<open>_boundary_box\<close>, \<open>_advice\<close>, \<open>_alert\<close>, \<open>_last_updated\<close>
  and \<open>_stookwijzer\<close> (the decoded payload, \<open>None\<close> before the first update and after
  a failed fetch). The properties \<open>advice\<close>, \<open>alert\<close> and \<open>last_updated\<close> return the
  fields as they are, so the selectors stand for them.
\<close>

record Stookwijzer =
  boundary_box :: pyobj
  advice :: "string option"
  alert :: "bool option"
  last_updated :: "datetime option"
  stookwijzer :: pyobj

subsection \<open>\<open>get_property\<close> and \<open>get_color\<close>\<close>

text \<open>The expression under \<open>str\<close>: \<open>self._stookwijzer["features"][0]["properties"][prop]\<close>.\<close>

definition feature_property :: "pyobj \<Rightarrow> string \<Rightarrow> py_error + pyobj" where
  "feature_property sw prop =
     bind_err (getitem_str sw ''features'') (\<lambda>fs.
     bind_err (getitem_int fs 0) (\<lambda>f.
     bind_err (getitem_str f ''properties'') (\<lambda>ps.
     getitem_str ps prop)))"

text \<open>The handler catches \<open>KeyError\<close>, \<open>IndexError\<close> and \<open>TypeError\<close>; anything else propagates.\<close>

definition get_property :: "pyobj \<Rightarrow> string \<Rightarrow> py_error + string" where
  "get_property sw prop =
     (case feature_property sw prop of
        Inr v \<Rightarrow> Inr (py_str v)
      | Inl e \<Rightarrow> if e = KeyError \<or> e = IndexError \<or> e = TypeError then Inr [] else Inl e)"

definition get_color :: "string \<Rightarrow> string" where
  "get_color adv =
     (if adv = ''0'' then ''code_yellow''
      else if adv = ''1'' then ''code_orange''
      else if adv = ''2'' then ''code_red''
      else [])"

subsection \<open>\<open>async_update\<close>\<close>

text \<open>
  The network is a parameter: \<open>fetch box\<close> is what \<open>json.loads\<close> makes of the
  response to the request for the bounding box \<open>box\<close>, and \<open>None\<close> when the request or
  the decoding raises (the method catches every \<open>Exception\<close>). Without a bounding box
  no request is made.
\<close>

fun truthy :: "pyobj \<Rightarrow> bool" where
  "truthy PyNone = False"
| "truthy (PyBool b) = b"
| "truthy (PyInt i) = (i \<noteq> 0)"
| "truthy (PyFloat f) = (case f of Finite neg m \<Rightarrow> m \<noteq> 0 | _ \<Rightarrow> True)"
| "truthy (PyStr s) = (s \<noteq> [])"
| "truthy (PyList xs) = (xs \<noteq> [])"
| "truthy (PyDict kvs) = (kvs \<noteq> [])"

definition async_get_stookwijzer :: "(pyobj \<Rightarrow> pyobj) \<Rightarrow> Stookwijzer \<Rightarrow> pyobj" where
  "async_get_stookwijzer fetch self =
     (if \<not> truthy (boundary_box self) then PyNone else fetch (boundary_box self))"

text \<open>\<open>now\<close> is the reading of \<open>datetime.now()\<close> at the moment the fields are set.\<close>

definition async_update :: "(pyobj \<Rightarrow> pyobj) \<Rightarrow> datetime \<Rightarrow> Stookwijzer \<Rightarrow> py_error + Stookwijzer" where
  "async_update fetch now self =
     (let self1 = self\<lparr>stookwijzer := async_get_stookwijzer fetch self\<rparr>
      in bind_err (get_property (stookwijzer self1) ''advies_0'') (\<lambda>adv.
           if adv \<noteq> [] then
             bind_err (get_property (stookwijzer self1) ''alert_0'') (\<lambda>al.
               Inr (self1\<lparr>advice := Some (get_color adv),
                           alert := Some (al = ''1''),
                           last_updated := Some now\<rparr>))
           else Inr self1))"

subsection \<open>\<open>float\<close>, \<open>round\<close> and float formatting\<close>

text \<open>
  \<open>float(s)\<close> of a str: white space is stripped at both ends; an underscore may
  stand between two digits; what is left is a decimal numeral (a sign, digits with
  at most one point and at least one digit, an optional exponent) or, in any case
  of the letters, \<open>inf\<close>, \<open>infinity\<close> or \<open>nan\<close> with an optional sign. Anything else
  raises \<open>ValueError\<close>. A numeral too large gives an infinity, one too small a zero.
\<close>

definition is_space :: "char \<Rightarrow> bool" where
  "is_space c = ((9 \<le> (of_char c :: nat) \<and> (of_char c :: nat) \<le> 13) \<or> (of_char c :: nat) = 32)"

definition strip :: "string \<Rightarrow> string" where
  "strip s = rev (dropWhile is_space (rev (dropWhile is_space s)))"

fun strip_underscores :: "char \<Rightarrow> string \<Rightarrow> string option" where
  "strip_underscores prev [] = (if prev = CHR ''_'' then None else Some [])"
| "strip_underscores prev (c # cs) =
     (if c = CHR ''_'' then
        (if is_digit prev then strip_underscores c cs else None)
      else if prev = CHR ''_'' \<and> \<not> is_digit c then None
      else map_option (\<lambda>r. c # r) (strip_underscores c cs))"

definition take_sign :: "string \<Rightarrow> bool \<times> string" where
  "take_sign s =
     (case s of
        c # cs \<Rightarrow> if c = CHR ''-'' then (True, cs) else if c = CHR ''+'' then (False, cs) else (False, s)
      | [] \<Rightarrow> (False, s))"

text \<open>The exponent part is read only when a digit follows the letter and the sign.\<close>

definition parse_exponent :: "string \<Rightarrow> int \<times> string" where
  "parse_exponent s =
     (case s of
        c # cs \<Rightarrow>
          if c = CHR ''e'' \<or> c = CHR ''E'' then
            (let (eneg, t) = take_sign cs; ds = takeWhile is_digit t
             in if ds = [] then (0, s)
                else ((if eneg then - digits_val ds else digits_val ds), dropWhile is_digit t))
          else (0, s)
      | [] \<Rightarrow> (0, s))"

definition parse_decimal :: "string \<Rightarrow> (pyfloat \<times> string) option" where
  "parse_decimal s =
     (let (neg, s1) = take_sign s;
          ip = takeWhile is_digit s1;
          r1 = dropWhile is_digit s1;
          (fp, r2) = (case r1 of
                        c # cs \<Rightarrow> if c = CHR ''.'' then (takeWhile is_digit cs, dropWhile is_digit cs)
                                  else ([], r1)
                      | [] \<Rightarrow> ([], r1))
      in if ip = [] \<and> fp = [] then None
         else let (ex, r3) = parse_exponent r2
              in Some (mk_float neg (of_int (digits_val (ip @ fp)) * pow_int 10 (ex - int (length fp))), r3))"

definition parse_inf_or_nan :: "string \<Rightarrow> (pyfloat \<times> string) option" where
  "parse_inf_or_nan s =
     (let (neg, t) = take_sign s
      in if map lower (take 3 t) = ''inf'' then
           Some (Infinite neg, if map lower (take 5 (drop 3 t)) = ''inity'' then drop 8 t else drop 3 t)
         else if map lower (take 3 t) = ''nan'' then Some (NaN, drop 3 t)
         else None)"

definition float_of_string :: "string \<Rightarrow> py_error + pyfloat" where
  "float_of_string s =
     (let t = strip s
      in if t = [] then Inl ValueError
         else case (if CHR ''_'' \<in> set t then strip_underscores (CHR 0x00) t else Some t) of
                None \<Rightarrow> Inl ValueError
              | Some u \<Rightarrow>
                  (case parse_decimal u of
                     Some (f, rest) \<Rightarrow> if rest = [] then Inr f else Inl ValueError
                   | None \<Rightarrow>
                       (case parse_inf_or_nan u of
                          Some (f, rest) \<Rightarrow> if rest = [] then Inr f else Inl ValueError
                        | None \<Rightarrow> Inl ValueError)))"

text \<open>
  \<open>float(x)\<close> of any object: \<open>None\<close>, a list and a dict raise \<open>TypeError\<close>; an int too
  large for a double raises \<open>OverflowError\<close>.
\<close>

fun py_float :: "pyobj \<Rightarrow> py_error + pyfloat" where
  "py_float PyNone = Inl TypeError"
| "py_float (PyBool b) = Inr (Finite False (if b then 1 else 0))"
| "py_float (PyInt i) =
     (case to_double (of_int \<bar>i\<bar>) of None \<Rightarrow> Inl OverflowError | Some r \<Rightarrow> Inr (Finite (i < 0) r))"
| "py_float (PyFloat f) = Inr f"
| "py_float (PyStr s) = float_of_string s"
| "py_float (PyList xs) = Inl TypeError"
| "py_float (PyDict kvs) = Inl TypeError"

text \<open>
  \<open>round(x, 1)\<close>: the exact value of the double is rounded to one decimal, a tie to
  the even digit, and the double nearest to that decimal is returned, with the sign
  of \<open>x\<close>. Infinities and NaN round to themselves.
\<close>

fun py_round1 :: "pyfloat \<Rightarrow> pyfloat" where
  "py_round1 (Finite neg m) = mk_float neg (of_int (round_half_even (m * 10)) / 10)"
| "py_round1 f = f"

text \<open>Addition of doubles: the exact sum, rounded.\<close>

fun signed :: "bool \<Rightarrow> rat \<Rightarrow> rat" where
  "signed neg m = (if neg then - m else m)"

fun float_add :: "pyfloat \<Rightarrow> pyfloat \<Rightarrow> pyfloat" where
  "float_add NaN g = NaN"
| "float_add f NaN = NaN"
| "float_add (Infinite a) (Infinite b) = (if a = b then Infinite a else NaN)"
| "float_add (Infinite a) (Finite b m) = Infinite a"
| "float_add (Finite a m) (Infinite b) = Infinite b"
| "float_add (Finite a m) (Finite b n) =
     (let v = signed a m + signed b n
      in if v = 0 then Finite (a \<and> b) 0 else mk_float (v < 0) \<bar>v\<bar>)"

text \<open>
  The format \<open>{:.6f}\<close>: the exact value rounded to six decimals, a tie to the even
  digit; an infinity and a NaN are written by name.
\<close>

fun format_6f :: "pyfloat \<Rightarrow> string" where
  "format_6f NaN = ''nan''"
| "format_6f (Infinite neg) = (if neg then ''-inf'' else ''inf'')"
| "format_6f (Finite neg m) =
     (let n = round_half_even (m * 1000000)
      in (if neg then ''-'' else []) @ show_nat (n div 1000000) @ ''.'' @ zfill 6 (show_nat (n mod 1000000)))"

subsection \<open>\<open>get_boundary_box\<close> and the constructor\<close>

text \<open>
  The body of the \<open>try\<close>: the four arguments of \<open>format\<close> are evaluated from left to
  right, and the first conversion that raises ends the evaluation.
\<close>

definition boundary_box_body :: "pyobj \<Rightarrow> pyobj \<Rightarrow> py_error + string" where
  "boundary_box_body x y =
     bind_err (py_float x) (\<lambda>x1.
     bind_err (py_float y) (\<lambda>y1.
     bind_err (py_float x) (\<lambda>x2.
     bind_err (py_float y) (\<lambda>y2.
       Inr (format_6f x1 @ ''%2C'' @ format_6f y1 @ ''%2C''
            @ format_6f (float_add x2 (Finite False 10)) @ ''%2C''
            @ format_6f (float_add y2 (Finite False 10)))))))"

text \<open>The handler catches \<open>ValueError\<close> and \<open>TypeError\<close> and returns \<open>None\<close>.\<close>

definition get_boundary_box :: "pyobj \<Rightarrow> pyobj \<Rightarrow> py_error + pyobj" where
  "get_boundary_box x y =
     (case boundary_box_body x y of
        Inr s \<Rightarrow> Inr (PyStr s)
      | Inl e \<Rightarrow> if e = ValueError \<or> e = TypeError then Inr PyNone else Inl e)"

definition init :: "pyobj \<Rightarrow> pyobj \<Rightarrow> py_error + Stookwijzer" where
  "init x y =
     bind_err (get_boundary_box x y) (\<lambda>box.
       Inr \<lparr>boundary_box = box, advice = None, alert = None, last_updated = None,
            stookwijzer = PyNone\<rparr>)"

subsection \<open>The wind and air quality properties\<close>

definition windspeed_bft :: "Stookwijzer \<Rightarrow> py_error + pyobj" where
  "windspeed_bft self = bind_err (get_property (stookwijzer self) ''wind_bft'') (\<lambda>s. Inr (PyStr s))"

definition windspeed_ms :: "Stookwijzer \<Rightarrow> py_error + pyobj" where
  "windspeed_ms self =
     bind_err (get_property (stookwijzer self) ''wind'') (\<lambda>windspeed.
       if windspeed \<noteq> [] then
         bind_err (float_of_string windspeed) (\<lambda>f. Inr (PyFloat (py_round1 f)))
       else Inr (PyStr windspeed))"

definition lki :: "Stookwijzer \<Rightarrow> py_error + pyobj" where
  "lki self = bind_err (get_property (stookwijzer self) ''lki'') (\<lambda>s. Inr (PyStr s))"

subsection \<open>An example payload\<close>

definition example_payload :: pyobj where
  "example_payload =
     PyDict [(''type'', PyStr ''FeatureCollection''),
             (''features'', PyList [PyDict [(''properties'',
                PyDict [(''advies_0'', PyStr ''1''), (''alert_0'', PyStr ''0''),
                        (''wind'', PyStr ''4.27''), (''wind_bft'', PyStr ''3''),
                        (''lki'', PyInt 4)])]])]"

subsection \<open>Example objects\<close>

text \<open>A payload with an alert and no present-moment advice, and one with a wind that is no number.\<close>

definition alert_only_payload :: pyobj where
  "alert_only_payload =
     PyDict [(''features'', PyList [PyDict [(''properties'',
                PyDict [(''alert_0'', PyStr ''1'')])]])]"

definition bad_wind_payload :: pyobj where
  "bad_wind_payload =
     PyDict [(''features'', PyList [PyDict [(''properties'',
                PyDict [(''advies_0'', PyStr ''0''), (''alert_0'', PyStr ''0''),
                        (''wind'', PyStr ''abc'')])]])]"

text \<open>The object that \<open>Stookwijzer(session, 100000, 400000)\<close> builds, and a clock reading.\<close>

definition fresh_object :: Stookwijzer where
  "fresh_object =
     \<lparr>boundary_box = PyStr ''100000.000000%2C400000.000000%2C100010.000000%2C400010.000000'',
      advice = None, alert = None, last_updated = None, stookwijzer = PyNone\<rparr>"

definition clock_reading :: datetime where
  "clock_reading = \<lparr>wall = 63839664000000000, utcoffset = None\<rparr>"

definition fetch_example :: "pyobj \<Rightarrow> pyobj" where
  "fetch_example box = example_payload"

definition fetch_alert_only :: "pyobj \<Rightarrow> pyobj" where
  "fetch_alert_only box = alert_only_payload"

text \<open>A rendering with exactly six digits after its last point.\<close>

definition six_decimals :: "string \<Rightarrow> bool" where
  "six_decimals s =
     (let fp = takeWhile (\<lambda>c. c \<noteq> CHR ''.'') (rev s)
      in CHR ''.'' \<in> set s \<and> length fp = 6 \<and> list_all is_digit fp)"


definition current_fields :: "Stookwijzer \<Rightarrow> string option \<times> bool option \<times> datetime option" where
  "current_fields self = (advice self, alert self, last_updated self)"

subsection \<open>Dates and times\<close>

text \<open>
  The calendar of \<open>datetime\<close>: the proleptic Gregorian calendar, years 1 to 9999.
  Day 1 is 0001-01-01.
\<close>

definition is_leap :: "int \<Rightarrow> bool" where
  "is_leap y = (y mod 4 = 0 \<and> (y mod 100 \<noteq> 0 \<or> y mod 400 = 0))"

definition days_in_month :: "int \<Rightarrow> int \<Rightarrow> int" where
  "days_in_month y m =
     (if m = 2 then (if is_leap y then 29 else 28)
      else if m = 4 \<or> m = 6 \<or> m = 9 \<or> m = 11 then 30 else 31)"

definition days_before_year :: "int \<Rightarrow> int" where
  "days_before_year y = (y - 1) * 365 + (y - 1) div 4 - (y - 1) div 100 + (y - 1) div 400"

definition days_before_month :: "int \<Rightarrow> int \<Rightarrow> int" where
  "days_before_month y m = sum_list (map (days_in_month y) [1..m - 1])"

definition ymd2ord :: "int \<Rightarrow> int \<Rightarrow> int \<Rightarrow> int" where
  "ymd2ord y m d = days_before_year y + days_before_month y m + d"

definition ord2ymd :: "int \<Rightarrow> int \<times> int \<times> int" where
  "ord2ymd ord =
     (let n = ord - 1;
          n400 = n div 146097; n = n mod 146097;
          n100 = n div 36524; n = n mod 36524;
          n4 = n div 1461; n = n mod 1461;
          n1 = n div 365; n = n mod 365;
          year = n400 * 400 + 1 + n100 * 100 + n4 * 4 + n1
      in if n1 = 4 \<or> n100 = 4 then (year - 1, 12, 31)
         else let month = (n + 50) div 32;
                  preceding = days_before_month year month
              in if n < preceding then (year, month - 1, n - (preceding - days_in_month year (month - 1)) + 1)
                 else (year, month, n - preceding + 1))"

text \<open>The last representable reading: 9999-12-31 23:59:59.999999.\<close>

definition max_wall :: int where
  "max_wall = 3652059 * 86400000000 - 1"

definition naive :: "int \<Rightarrow> int \<Rightarrow> int \<Rightarrow> int \<Rightarrow> int \<Rightarrow> datetime" where
  "naive y m d hh mm =
     \<lparr>wall = ((ymd2ord y m d - 1) * 86400 + hh * 3600 + mm * 60) * 1000000, utcoffset = None\<rparr>"

text \<open>
  \<open>datetime.strptime(s, "%d-%m-%Y %H:%M")\<close>. The day is one digit from 1 to 9, also
  after one space, or two digits from 01 to 31; the month one digit from 1 to 9 or
  two digits from 01 to 12; the year exactly four digits; then white space, at
  least one character; the hour one digit or two digits up to 23; the minute one
  digit or two digits up to 59, and nothing after it. A year 0 and a day the month
  does not have are refused. Every refusal is a \<open>ValueError\<close>.
\<close>

definition is_space_re :: "char \<Rightarrow> bool" where
  "is_space_re c = (is_space c \<or> (28 \<le> (of_char c :: nat) \<and> (of_char c :: nat) \<le> 31))"

definition two_digits :: "string \<Rightarrow> int \<Rightarrow> int \<Rightarrow> int option" where
  "two_digits s lo hi =
     (if length s = 2 \<and> list_all is_digit s \<and> lo \<le> digits_val s \<and> digits_val s \<le> hi
      then Some (digits_val s) else None)"

definition one_digit :: "string \<Rightarrow> int \<Rightarrow> int option" where
  "one_digit s lo =
     (if length s = 1 \<and> list_all is_digit s \<and> lo \<le> digits_val s then Some (digits_val s) else None)"

definition first_of :: "'a option \<Rightarrow> 'a option \<Rightarrow> 'a option" where
  "first_of a b = (case a of Some x \<Rightarrow> Some x | None \<Rightarrow> b)"

definition parse_day :: "string \<Rightarrow> int option" where
  "parse_day s =
     first_of (two_digits s 1 31)
       (first_of (one_digit s 1)
          (case s of c # cs \<Rightarrow> if c = CHR '' '' then one_digit cs 1 else None | [] \<Rightarrow> None))"

definition parse_month :: "string \<Rightarrow> int option" where
  "parse_month s = first_of (two_digits s 1 12) (one_digit s 1)"

definition parse_hour :: "string \<Rightarrow> int option" where
  "parse_hour s = first_of (two_digits s 0 23) (one_digit s 0)"

definition parse_minute :: "string \<Rightarrow> int option" where
  "parse_minute s = first_of (two_digits s 0 59) (one_digit s 0)"

definition until_char :: "char \<Rightarrow> string \<Rightarrow> (string \<times> string) option" where
  "until_char c s =
     (case dropWhile (\<lambda>x. x \<noteq> c) s of
        [] \<Rightarrow> None
      | x # rest \<Rightarrow> Some (takeWhile (\<lambda>x. x \<noteq> c) s, rest))"

definition strptime :: "string \<Rightarrow> py_error + datetime" where
  "strptime s =
     (case until_char CHR ''-'' s of
        None \<Rightarrow> Inl ValueError
      | Some (ds, r1) \<Rightarrow>
     (case until_char CHR ''-'' r1 of
        None \<Rightarrow> Inl ValueError
      | Some (ms, r2) \<Rightarrow>
     (let ys = take 4 r2; r3 = drop 4 r2; r4 = dropWhile is_space_re r3
      in case until_char CHR '':'' r4 of
           None \<Rightarrow> Inl ValueError
         | Some (hs, mins) \<Rightarrow>
             (case (parse_day ds, parse_month ms, parse_hour hs, parse_minute mins) of
                (Some d, Some m, Some hh, Some mm) \<Rightarrow>
                  if length ys = 4 \<and> list_all is_digit ys \<and> r4 \<noteq> r3
                     \<and> 1 \<le> digits_val ys \<and> d \<le> days_in_month (digits_val ys) m
                  then Inr (naive (digits_val ys) m d hh mm)
                  else Inl ValueError
              | _ \<Rightarrow> Inl ValueError))))"

text \<open>
  \<open>dt + timedelta(hours=h)\<close>: the wall-clock reading moves, the offset stays;
  \<open>OverflowError\<close> outside the years 1 to 9999.
\<close>

definition plus_hours :: "datetime \<Rightarrow> int \<Rightarrow> py_error + datetime" where
  "plus_hours dt h =
     (let w = wall dt + h * 3600000000
      in if w < 0 \<or> max_wall < w then Inl OverflowError else Inr (dt\<lparr>wall := w\<rparr>))"

text \<open>\<open>isoformat()\<close>: date, \<open>T\<close>, time, the microseconds when not zero, the offset of an aware datetime.\<close>

definition iso_offset :: "int \<Rightarrow> string" where
  "iso_offset off =
     (let a = \<bar>off\<bar>
      in (if off < 0 then ''-'' else ''+'') @ zfill 2 (show_nat (a div 3600)) @ '':''
         @ zfill 2 (show_nat (a mod 3600 div 60))
         @ (if a mod 60 \<noteq> 0 then '':'' @ zfill 2 (show_nat (a mod 60)) else []))"

definition isoformat :: "datetime \<Rightarrow> string" where
  "isoformat dt =
     (let us = wall dt mod 1000000;
          secs = wall dt div 1000000;
          (y, m, d) = ord2ymd (secs div 86400 + 1);
          t = secs mod 86400
      in zfill 4 (show_nat y) @ ''-'' @ zfill 2 (show_nat m) @ ''-'' @ zfill 2 (show_nat d) @ ''T''
         @ zfill 2 (show_nat (t div 3600)) @ '':'' @ zfill 2 (show_nat (t mod 3600 div 60)) @ '':''
         @ zfill 2 (show_nat (t mod 60))
         @ (if us \<noteq> 0 then ''.'' @ zfill 6 (show_nat us) else [])
         @ (case utcoffset dt of None \<Rightarrow> [] | Some off \<Rightarrow> iso_offset off))"

subsection \<open>The forecast\<close>

text \<open>
  \<open>dt.astimezone(pytz.timezone("Europe/Amsterdam"))\<close> of a naive \<open>dt\<close> takes \<open>dt\<close> as
  a time of the machine's own zone and gives the same instant in the zone of
  Amsterdam. What it returns rests on the zone the machine is set to and on the
  zone tables, none of them in the program: the conversion is the parameter \<open>tz\<close>
  of the functions below. \<open>fixed_zone sys ams\<close> is the conversion on a machine whose
  zone is \<open>sys\<close> seconds ahead of UTC while Amsterdam is \<open>ams\<close> seconds ahead.
\<close>

definition fixed_zone :: "int \<Rightarrow> int \<Rightarrow> datetime \<Rightarrow> py_error + datetime" where
  "fixed_zone sys ams dt =
     (let utc = wall dt - sys * 1000000
      in if utc < 0 \<or> max_wall < utc then Inl OverflowError
         else let w = utc + ams * 1000000
              in if w < 0 \<or> max_wall < w then Inl OverflowError
                 else Inr \<lparr>wall = w, utcoffset = Some ams\<rparr>)"

definition get_forecast_at_offset :: "pyobj \<Rightarrow> datetime \<Rightarrow> int \<Rightarrow> bool \<Rightarrow> py_error + pyobj" where
  "get_forecast_at_offset sw runtime offset adv =
     bind_err (plus_hours runtime offset) (\<lambda>t.
     bind_err (if adv then bind_err (get_property sw (''advies_'' @ show_int offset))
                               (\<lambda>s. Inr [(''advice'', PyStr (get_color s))])
               else bind_err (get_property sw (''alert_'' @ show_int offset))
                               (\<lambda>s. Inr [(''alert'', PyBool (s = ''1''))])) (\<lambda>forecast.
       Inr (PyDict ([(''datetime'', PyStr (isoformat t))] @ forecast))))"

function py_range :: "int \<Rightarrow> int \<Rightarrow> int \<Rightarrow> int list" where
  "py_range start stop step =
     (if step \<le> 0 \<or> stop \<le> start then [] else start # py_range (start + step) stop step)"
  by pat_completeness auto
termination
  by (relation "measure (\<lambda>(start, stop, step). nat (stop - start))") auto

declare py_range.simps [simp del]

fun forecast_loop :: "pyobj \<Rightarrow> datetime \<Rightarrow> bool \<Rightarrow> int list \<Rightarrow> pyobj list \<Rightarrow> py_error + pyobj list" where
  "forecast_loop sw localdt adv [] forecast = Inr forecast"
| "forecast_loop sw localdt adv (offset # rest) forecast =
     bind_err (get_forecast_at_offset sw localdt offset adv) (\<lambda>entry.
       forecast_loop sw localdt adv rest (forecast @ [entry]))"

definition get_forecast_array :: "(datetime \<Rightarrow> py_error + datetime) \<Rightarrow> pyobj \<Rightarrow> bool \<Rightarrow> py_error + pyobj" where
  "get_forecast_array tz sw adv =
     bind_err (get_property sw ''model_runtime'') (\<lambda>runtime.
       if runtime = [] then Inr PyNone
       else bind_err (strptime runtime) (\<lambda>dt.
            bind_err (tz dt) (\<lambda>localdt.
            bind_err (forecast_loop sw localdt adv (py_range 2 25 2) []) (\<lambda>forecast.
              Inr (PyList forecast)))))"

definition forecast_advice :: "(datetime \<Rightarrow> py_error + datetime) \<Rightarrow> Stookwijzer \<Rightarrow> py_error + pyobj" where
  "forecast_advice tz self = get_forecast_array tz (stookwijzer self) True"

definition forecast_alert :: "(datetime \<Rightarrow> py_error + datetime) \<Rightarrow> Stookwijzer \<Rightarrow> py_error + pyobj" where
  "forecast_alert tz self = get_forecast_array tz (stookwijzer self) False"

text \<open>The timestamps the loop writes, one for each offset, up to the first that overflows.\<close>

fun stamps :: "datetime \<Rightarrow> int list \<Rightarrow> py_error + string list" where
  "stamps localdt [] = Inr []"
| "stamps localdt (offset # rest) =
     bind_err (plus_hours localdt offset) (\<lambda>t.
     bind_err (stamps localdt rest) (\<lambda>ss. Inr (isoformat t # ss)))"

definition forecast_payload :: "string \<Rightarrow> pyobj" where
  "forecast_payload runtime =
     PyDict [(''features'', PyList [PyDict [(''properties'',
                PyDict [(''advies_0'', PyStr ''0''), (''alert_0'', PyStr ''0''),
                        (''model_runtime'', PyStr runtime),
                        (''advies_2'', PyStr ''1''), (''alert_2'', PyStr ''1''),
                        (''advies_4'', PyStr ''2''), (''alert_4'', PyStr ''0'')])]])]"

text \<open>What both series are built on: an error, no series, or the list of the timestamps.\<close>

definition forecast_stamps :: "(datetime \<Rightarrow> py_error + datetime) \<Rightarrow> pyobj \<Rightarrow> py_error + string list option" where
  "forecast_stamps tz sw =
     bind_err (get_property sw ''model_runtime'') (\<lambda>runtime.
       if runtime = [] then Inr None
       else bind_err (strptime runtime) (\<lambda>dt.
            bind_err (tz dt) (\<lambda>localdt.
            bind_err (stamps localdt (py_range 2 25 2)) (\<lambda>ss. Inr (Some ss)))))"

section \<open>Properties\<close>

subsection \<open>The property extractor and the colour mapping\<close>

lemma feature_property_errors:
  "feature_property sw prop = Inl e \<Longrightarrow> e = KeyError \<or> e = IndexError \<or> e = TypeError"
  by (cases sw; cases "getitem_str sw ''features''")
     (auto simp: feature_property_def bind_err_def
           split: option.splits sum.splits pyobj.splits
           elim!: getitem_str.elims getitem_int.elims)

text \<open>
  C4. \<open>get_color\<close> maps exactly the string \<open>"0"\<close> to the yellow code, exactly \<open>"1"\<close>
  to the orange code, exactly \<open>"2"\<close> to the red code, and every other string to the
  empty result: the empty string, \<open>"9"\<close>, and strings that only denote the same
  number (\<open>"00"\<close>, \<open>"1.0"\<close>, \<open>" 2"\<close>); the comparison is on the text.
\<close>

theorem get_color_exact:
  "(get_color s = ''code_yellow'') = (s = ''0'')
   \<and> (get_color s = ''code_orange'') = (s = ''1'')
   \<and> (get_color s = ''code_red'') = (s = ''2'')
   \<and> (get_color s = []) = (s \<noteq> ''0'' \<and> s \<noteq> ''1'' \<and> s \<noteq> ''2'')
   \<and> get_color [] = [] \<and> get_color ''9'' = []
   \<and> get_color ''00'' = [] \<and> get_color ''1.0'' = [] \<and> get_color '' 2'' = []"
  by (simp add: get_color_def)

theorem get_color_exact_witness:
  "get_color ''2'' = ''code_red'' \<and> get_color ''Code_Red'' = []"
  using get_color_exact [of "''2''"] get_color_exact [of "''Code_Red''"] by simp

text \<open>
  C7. For every payload and every property name, \<open>get_property\<close> returns and never
  raises. When \<open>payload["features"][0]["properties"][name]\<close> has a value the result is
  \<open>str\<close> of it: for a payload whose first feature has the value \<open>v\<close> under the name
  in its properties, the result is \<open>str\<close> of \<open>v\<close>. When that expression raises, the
  result is the empty string: so for the payload \<open>None\<close>, a payload without features
  (no key, or an empty list) and a first feature whose properties lack the name.
\<close>

theorem get_property_contract:
  "(\<exists>s. get_property sw name = Inr s)
   \<and> (\<forall>v. feature_property sw name = Inr v \<longrightarrow> get_property sw name = Inr (py_str v))
   \<and> (\<forall>e. feature_property sw name = Inl e \<longrightarrow> get_property sw name = Inr [])
   \<and> get_property PyNone name = Inr []
   \<and> (map_of kvs ''features'' = None \<longrightarrow> get_property (PyDict kvs) name = Inr [])
   \<and> (map_of kvs ''features'' = Some (PyList []) \<longrightarrow> get_property (PyDict kvs) name = Inr [])
   \<and> (map_of kvs ''features'' = Some (PyList (PyDict fkvs # rest))
        \<and> map_of fkvs ''properties'' = Some (PyDict props) \<and> map_of props name = None
        \<longrightarrow> get_property (PyDict kvs) name = Inr [])
   \<and> (map_of kvs ''features'' = Some (PyList (PyDict fkvs # rest))
        \<and> map_of fkvs ''properties'' = Some (PyDict props) \<and> map_of props name = Some v
        \<longrightarrow> feature_property (PyDict kvs) name = Inr v
            \<and> get_property (PyDict kvs) name = Inr (py_str v))"
proof -
  have total: "\<exists>s. get_property sw name = Inr s"
    using feature_property_errors [of sw name]
    by (cases "feature_property sw name") (auto simp: get_property_def)
  have present: "\<forall>v. feature_property sw name = Inr v \<longrightarrow> get_property sw name = Inr (py_str v)"
    by (simp add: get_property_def)
  have missing: "\<forall>e. feature_property sw name = Inl e \<longrightarrow> get_property sw name = Inr []"
    using feature_property_errors [of sw name] by (auto simp: get_property_def)
  have null: "get_property PyNone name = Inr []"
    by (simp add: get_property_def feature_property_def bind_err_def)
  have rest: "(map_of kvs ''features'' = None \<longrightarrow> get_property (PyDict kvs) name = Inr [])
   \<and> (map_of kvs ''features'' = Some (PyList []) \<longrightarrow> get_property (PyDict kvs) name = Inr [])
   \<and> (map_of kvs ''features'' = Some (PyList (PyDict fkvs # rest))
        \<and> map_of fkvs ''properties'' = Some (PyDict props) \<and> map_of props name = None
        \<longrightarrow> get_property (PyDict kvs) name = Inr [])"
    by (simp add: get_property_def feature_property_def bind_err_def index_of_def)
  have found: "map_of kvs ''features'' = Some (PyList (PyDict fkvs # rest))
        \<and> map_of fkvs ''properties'' = Some (PyDict props) \<and> map_of props name = Some v
        \<longrightarrow> feature_property (PyDict kvs) name = Inr v
            \<and> get_property (PyDict kvs) name = Inr (py_str v)"
    by (simp add: get_property_def feature_property_def bind_err_def index_of_def)
  from total present missing null rest found show ?thesis by blast
qed

theorem get_property_contract_witness:
  "feature_property example_payload ''lki'' = Inr (PyInt 4)
   \<and> get_property example_payload ''lki'' = Inr ''4''
   \<and> feature_property example_payload ''model_runtime'' = Inl KeyError
   \<and> get_property example_payload ''model_runtime'' = Inr []
   \<and> get_property example_payload ''wind'' = Inr ''4.27''"
proof -
  let ?props = "[(''advies_0'', PyStr ''1''), (''alert_0'', PyStr ''0''),
                 (''wind'', PyStr ''4.27''), (''wind_bft'', PyStr ''3''), (''lki'', PyInt 4)]"
  let ?fkvs = "[(''properties'', PyDict ?props)]"
  let ?kvs = "[(''type'', PyStr ''FeatureCollection''), (''features'', PyList [PyDict ?fkvs])]"
  have a: "feature_property example_payload ''lki'' = Inr (PyInt 4)" by code_simp
  have b: "feature_property example_payload ''model_runtime'' = Inl KeyError" by code_simp
  have c: "py_str (PyInt 4) = ''4''" by code_simp
  have m1: "map_of ?kvs ''features'' = Some (PyList (PyDict ?fkvs # []))" by simp
  have m2: "map_of ?fkvs ''properties'' = Some (PyDict ?props)" by simp
  have m3: "map_of ?props ''wind'' = Some (PyStr ''4.27'')" by simp
  have "get_property (PyDict ?kvs) ''wind'' = Inr (py_str (PyStr ''4.27''))"
    using m1 m2 m3
      get_property_contract [where kvs = ?kvs and fkvs = ?fkvs and rest = "[]" and props = ?props
                               and name = "''wind''" and v = "PyStr ''4.27''"]
    by blast
  then have d: "get_property example_payload ''wind'' = Inr ''4.27''"
    by (simp add: example_payload_def)
  show ?thesis
    using a b c d get_property_contract [of example_payload "''lki''"]
      get_property_contract [of example_payload "''model_runtime''"]
    by simp
qed

lemma get_property_cases:
  "(\<exists>v. feature_property sw name = Inr v \<and> get_property sw name = Inr (py_str v))
   \<or> ((\<exists>e. feature_property sw name = Inl e) \<and> get_property sw name = Inr [])"
  using feature_property_errors [of sw name]
  by (cases "feature_property sw name") (auto simp: get_property_def)

lemma get_property_Inr: "\<exists>s. get_property sw name = Inr s"
  using get_property_cases [of sw name] by auto

lemma show_nat_nonempty: "show_nat n \<noteq> []"
  by (subst show_nat.simps) simp

lemma float_repr_finite_nonempty: "float_repr_finite m \<noteq> []"
  by (auto simp: float_repr_finite_def Let_def split: prod.splits)

lemma py_repr_nonempty: "py_repr v \<noteq> []"
proof (cases v)
  case (PyFloat f)
  then show ?thesis
    by (cases f) (auto simp: float_repr_finite_nonempty)
qed (auto simp: show_int_def show_nat_nonempty str_repr_def Let_def)

lemma py_str_empty_iff: "(py_str v = []) = (v = PyStr [])"
  using py_repr_nonempty [of v] by (cases v) auto

subsection \<open>The update cycle\<close>

text \<open>
  C1. After \<open>async_update\<close> the fields \<open>advice\<close>, \<open>alert\<close> and \<open>last_updated\<close> are set
  together or not at all. The update always returns. If the fetched payload has an
  \<open>advies_0\<close> property whose text is not empty, \<open>advice\<close> is the colour of that text,
  \<open>alert\<close> is whether \<open>alert_0\<close> is \<open>"1"\<close>, and \<open>last_updated\<close> is the clock reading. If
  \<open>advies_0\<close> is absent or empty, the three fields keep their prior values, which
  are \<open>None\<close> on a newly built object, also when the fetch gave a payload.
\<close>

theorem async_update_all_or_nothing:
  "\<exists>self' adv al.
     async_update fetch now self = Inr self'
     \<and> get_property (async_get_stookwijzer fetch self) ''advies_0'' = Inr adv
     \<and> get_property (async_get_stookwijzer fetch self) ''alert_0'' = Inr al
     \<and> stookwijzer self' = async_get_stookwijzer fetch self
     \<and> boundary_box self' = boundary_box self
     \<and> (adv \<noteq> []) = (\<exists>v. feature_property (async_get_stookwijzer fetch self) ''advies_0'' = Inr v
                              \<and> v \<noteq> PyStr [])
     \<and> (adv \<noteq> [] \<longrightarrow>
          advice self' = Some (get_color adv) \<and> alert self' = Some (al = ''1'')
          \<and> last_updated self' = Some now)
     \<and> (adv = [] \<longrightarrow>
          advice self' = advice self \<and> alert self' = alert self
          \<and> last_updated self' = last_updated self)
     \<and> (adv = [] \<and> (\<exists>x y. init x y = Inr self) \<longrightarrow>
          advice self' = None \<and> alert self' = None \<and> last_updated self' = None)"
proof -
  let ?p = "async_get_stookwijzer fetch self"
  obtain adv where adv: "get_property ?p ''advies_0'' = Inr adv"
    using get_property_Inr by blast
  obtain al where al: "get_property ?p ''alert_0'' = Inr al"
    using get_property_Inr by blast
  have present: "(adv \<noteq> []) = (\<exists>v. feature_property ?p ''advies_0'' = Inr v \<and> v \<noteq> PyStr [])"
    using get_property_cases [of ?p "''advies_0''"] adv by (auto simp: py_str_empty_iff)
  have fresh: "(\<exists>x y. init x y = Inr self) \<longrightarrow>
      advice self = None \<and> alert self = None \<and> last_updated self = None"
  proof
    assume "\<exists>x y. init x y = Inr self"
    then obtain x y where "init x y = Inr self" by blast
    then show "advice self = None \<and> alert self = None \<and> last_updated self = None"
      by (cases "get_boundary_box x y") (auto simp: init_def bind_err_def)
  qed
  show ?thesis
  proof (cases "adv = []")
    case True
    then have "async_update fetch now self = Inr (self\<lparr>stookwijzer := ?p\<rparr>)"
      using adv by (simp add: async_update_def bind_err_def Let_def)
    with True adv al present fresh show ?thesis by auto
  next
    case False
    then have "async_update fetch now self =
        Inr (self\<lparr>stookwijzer := ?p, advice := Some (get_color adv),
                  alert := Some (al = ''1''), last_updated := Some now\<rparr>)"
      using adv al by (simp add: async_update_def bind_err_def Let_def)
    with False adv al present show ?thesis by auto
  qed
qed

theorem async_update_all_or_nothing_witness:
  "map_sum id current_fields (async_update fetch_example clock_reading fresh_object)
     = Inr (Some ''code_orange'', Some False, Some clock_reading)
   \<and> map_sum id current_fields (async_update fetch_alert_only clock_reading fresh_object)
     = Inr (None, None, None)
   \<and> alert_only_payload \<noteq> PyNone
   \<and> init (PyInt 100000) (PyInt 400000) = Inr fresh_object"
proof -
  have p1: "async_get_stookwijzer fetch_example fresh_object = example_payload"
    by (simp add: async_get_stookwijzer_def fresh_object_def fetch_example_def)
  have p2: "async_get_stookwijzer fetch_alert_only fresh_object = alert_only_payload"
    by (simp add: async_get_stookwijzer_def fresh_object_def fetch_alert_only_def)
  have a1: "get_property example_payload ''advies_0'' = Inr ''1''" by code_simp
  have a2: "get_property example_payload ''alert_0'' = Inr ''0''" by code_simp
  have a3: "get_property alert_only_payload ''advies_0'' = Inr []" by code_simp
  have c: "get_color ''1'' = ''code_orange''" by (simp add: get_color_def)
  have i: "init (PyInt 100000) (PyInt 400000) = Inr fresh_object" by code_simp
  have n: "alert_only_payload \<noteq> PyNone" by (simp add: alert_only_payload_def)
  have f: "advice fresh_object = None" "alert fresh_object = None" "last_updated fresh_object = None"
    by (simp_all add: fresh_object_def)
  obtain s1 adv1 al1 where s1: "async_update fetch_example clock_reading fresh_object = Inr s1"
      and g1: "get_property example_payload ''advies_0'' = Inr adv1"
      and g2: "get_property example_payload ''alert_0'' = Inr al1"
      and r1: "adv1 \<noteq> [] \<longrightarrow> advice s1 = Some (get_color adv1) \<and> alert s1 = Some (al1 = ''1'')
          \<and> last_updated s1 = Some clock_reading"
    using async_update_all_or_nothing [of fetch_example clock_reading fresh_object]
    unfolding p1 by blast
  have v1: "adv1 = ''1''" using g1 a1 by simp
  have v2: "al1 = ''0''" using g2 a2 by simp
  have e1: "current_fields s1 = (Some ''code_orange'', Some False, Some clock_reading)"
    using r1 c unfolding v1 v2 by (simp add: current_fields_def)
  obtain s2 adv2 where s2: "async_update fetch_alert_only clock_reading fresh_object = Inr s2"
      and g3: "get_property alert_only_payload ''advies_0'' = Inr adv2"
      and r2: "adv2 = [] \<longrightarrow> advice s2 = advice fresh_object \<and> alert s2 = alert fresh_object
          \<and> last_updated s2 = last_updated fresh_object"
    using async_update_all_or_nothing [of fetch_alert_only clock_reading fresh_object]
    unfolding p2 by blast
  have v3: "adv2 = []" using g3 a3 by simp
  have e2: "current_fields s2 = (None, None, None)"
    using r2 f unfolding v3 by (simp add: current_fields_def)
  show ?thesis unfolding s1 s2 using e1 e2 n i by simp
qed

text \<open>
  C6 as stated fails: with \<open>alert_0\<close> equal to \<open>"1"\<close> and no \<open>advies_0\<close> in the payload,
  the update leaves the alert of a fresh object at \<open>None\<close>, which is not true.
\<close>

theorem alert_counterexample:
  "get_property alert_only_payload ''alert_0'' = Inr ''1''
   \<and> map_sum id alert (async_update fetch_alert_only clock_reading fresh_object) = Inr None"
  by code_simp

text \<open>
  C6, amended. In an update whose payload has a non-empty \<open>advies_0\<close>, the alert
  is set, and it is true if and only if \<open>get_property\<close> of \<open>alert_0\<close> is exactly the
  string \<open>"1"\<close>: false for \<open>"0"\<close>, and false when \<open>alert_0\<close> is absent. In an update
  without \<open>advies_0\<close> the alert keeps the value it had (\<open>None\<close> on a new object).
\<close>

theorem alert_after_update:
  "\<exists>self' adv al.
     async_update fetch now self = Inr self'
     \<and> get_property (async_get_stookwijzer fetch self) ''advies_0'' = Inr adv
     \<and> get_property (async_get_stookwijzer fetch self) ''alert_0'' = Inr al
     \<and> (adv \<noteq> [] \<longrightarrow> (alert self' = Some True) = (al = ''1'')
                    \<and> (alert self' = Some False) = (al \<noteq> ''1''))
     \<and> (adv \<noteq> [] \<and> (\<exists>e. feature_property (async_get_stookwijzer fetch self) ''alert_0'' = Inl e)
          \<longrightarrow> alert self' = Some False)
     \<and> (adv \<noteq> [] \<and> feature_property (async_get_stookwijzer fetch self) ''alert_0'' = Inr (PyStr ''0'')
          \<longrightarrow> alert self' = Some False)
     \<and> (adv = [] \<longrightarrow> alert self' = alert self)"
proof -
  let ?p = "async_get_stookwijzer fetch self"
  obtain adv where adv: "get_property ?p ''advies_0'' = Inr adv"
    using get_property_Inr by blast
  obtain al where al: "get_property ?p ''alert_0'' = Inr al"
    using get_property_Inr by blast
  have absent: "(\<exists>e. feature_property ?p ''alert_0'' = Inl e) \<longrightarrow> al \<noteq> ''1''"
    using get_property_cases [of ?p "''alert_0''"] al by auto
  have zero: "feature_property ?p ''alert_0'' = Inr (PyStr ''0'') \<longrightarrow> al \<noteq> ''1''"
    using get_property_cases [of ?p "''alert_0''"] al by auto
  show ?thesis
  proof (cases "adv = []")
    case True
    then have "async_update fetch now self = Inr (self\<lparr>stookwijzer := ?p\<rparr>)"
      using adv by (simp add: async_update_def bind_err_def Let_def)
    with True adv al show ?thesis by auto
  next
    case False
    then have "async_update fetch now self =
        Inr (self\<lparr>stookwijzer := ?p, advice := Some (get_color adv),
                  alert := Some (al = ''1''), last_updated := Some now\<rparr>)"
      using adv al by (simp add: async_update_def bind_err_def Let_def)
    with False adv al absent zero show ?thesis by auto
  qed
qed

theorem alert_after_update_witness:
  "map_sum id alert (async_update fetch_example clock_reading fresh_object) = Inr (Some False)"
proof -
  have p1: "async_get_stookwijzer fetch_example fresh_object = example_payload"
    by (simp add: async_get_stookwijzer_def fresh_object_def fetch_example_def)
  have a1: "get_property example_payload ''advies_0'' = Inr ''1''" by code_simp
  have a2: "get_property example_payload ''alert_0'' = Inr ''0''" by code_simp
  obtain s adv al where s: "async_update fetch_example clock_reading fresh_object = Inr s"
      and g1: "get_property example_payload ''advies_0'' = Inr adv"
      and g2: "get_property example_payload ''alert_0'' = Inr al"
      and r: "adv \<noteq> [] \<longrightarrow> (alert s = Some True) = (al = ''1'') \<and> (alert s = Some False) = (al \<noteq> ''1'')"
    using alert_after_update [of fetch_example clock_reading fresh_object]
    unfolding p1 by blast
  have v1: "adv = ''1''" using g1 a1 by simp
  have v2: "al = ''0''" using g2 a2 by simp
  have "alert s = Some False" using r unfolding v1 v2 by simp
  then show ?thesis unfolding s by simp
qed

text \<open>
  C8. \<open>windspeed_bft\<close> is declared to return \<open>int | None\<close>, and the specification says the
  same: the property parsed when present, \<open>None\<close> when absent. The code returns what
  \<open>get_property\<close> gives and nothing else: the empty string, not \<open>None\<close>, for a payload
  without \<open>wind_bft\<close>, and the text \<open>"3"\<close>, not the number 3, for \<open>wind_bft\<close> equal to
  \<open>"3"\<close>.
\<close>

theorem windspeed_bft_returns_str:
  "windspeed_bft (fresh_object\<lparr>stookwijzer := alert_only_payload\<rparr>) = Inr (PyStr [])
   \<and> windspeed_bft (fresh_object\<lparr>stookwijzer := alert_only_payload\<rparr>) \<noteq> Inr PyNone
   \<and> windspeed_bft (fresh_object\<lparr>stookwijzer := example_payload\<rparr>) = Inr (PyStr ''3'')
   \<and> windspeed_bft (fresh_object\<lparr>stookwijzer := example_payload\<rparr>) \<noteq> Inr (PyInt 3)"
  by code_simp

text \<open>Whatever the payload, the result of \<open>windspeed_bft\<close> is a str.\<close>

lemma windspeed_bft_str: "\<exists>s. windspeed_bft self = Inr (PyStr s)"
  using get_property_Inr [of "stookwijzer self" "''wind_bft''"]
  by (auto simp: windspeed_bft_def bind_err_def)

subsection \<open>The wind speed\<close>

lemma round_half_even_nearest:
  "\<bar>q - of_int (round_half_even q)\<bar> \<le> 1 / 2
   \<and> (\<bar>q - of_int (round_half_even q)\<bar> = 1 / 2 \<longrightarrow> even (round_half_even q))"
proof -
  have "of_int \<lfloor>q\<rfloor> \<le> q" "q < of_int \<lfloor>q\<rfloor> + 1" by linarith+
  then show ?thesis
    by (auto simp: round_half_even_def Let_def)
qed

text \<open>
  C5. \<open>windspeed_ms\<close> is declared to return \<open>float | None\<close>, and the specification says the
  same: the rounded float when \<open>wind\<close> is present, \<open>None\<close> when it is absent. The
  rounding is as claimed (\<open>"4.27"\<close> gives 4.3), but for a payload without \<open>wind\<close> the
  code returns the empty string that \<open>get_property\<close> gave it, not \<open>None\<close>.
\<close>

theorem windspeed_ms_absent:
  "windspeed_ms (fresh_object\<lparr>stookwijzer := alert_only_payload\<rparr>) = Inr (PyStr [])
   \<and> windspeed_ms (fresh_object\<lparr>stookwijzer := alert_only_payload\<rparr>) \<noteq> Inr PyNone
   \<and> windspeed_ms (fresh_object\<lparr>stookwijzer := example_payload\<rparr>)
        = Inr (PyFloat (mk_float False (43 / 10)))"
  by code_simp

text \<open>
  The rounding: when \<open>float\<close> reads the text of \<open>wind\<close>, the result is \<open>round\<close> of that
  float to one decimal; for a finite float of magnitude \<open>m\<close> that is the double
  nearest to \<open>k / 10\<close>, where \<open>k\<close> is the integer nearest to \<open>10 m\<close> and, on a tie, the
  even one.
\<close>

lemma windspeed_ms_rounds:
  "(\<forall>s f. get_property (stookwijzer self) ''wind'' = Inr s \<and> s \<noteq> [] \<and> float_of_string s = Inr f
          \<longrightarrow> windspeed_ms self = Inr (PyFloat (py_round1 f)))
   \<and> (\<forall>neg m. \<exists>k. py_round1 (Finite neg m) = mk_float neg (of_int k / 10)
          \<and> \<bar>m * 10 - of_int k\<bar> \<le> 1 / 2
          \<and> (\<bar>m * 10 - of_int k\<bar> = 1 / 2 \<longrightarrow> even k))"
proof -
  have a: "\<forall>s f. get_property (stookwijzer self) ''wind'' = Inr s \<and> s \<noteq> [] \<and> float_of_string s = Inr f
          \<longrightarrow> windspeed_ms self = Inr (PyFloat (py_round1 f))"
    by (simp add: windspeed_ms_def bind_err_def)
  have b: "\<forall>neg m. \<exists>k. py_round1 (Finite neg m) = mk_float neg (of_int k / 10)
          \<and> \<bar>m * 10 - of_int k\<bar> \<le> 1 / 2
          \<and> (\<bar>m * 10 - of_int k\<bar> = 1 / 2 \<longrightarrow> even k)"
  proof (intro allI)
    fix neg m
    show "\<exists>k. py_round1 (Finite neg m) = mk_float neg (of_int k / 10)
          \<and> \<bar>m * 10 - of_int k\<bar> \<le> 1 / 2
          \<and> (\<bar>m * 10 - of_int k\<bar> = 1 / 2 \<longrightarrow> even k)"
      using round_half_even_nearest [of "m * 10"]
      by (intro exI [of _ "round_half_even (m * 10)"]) simp
  qed
  from a b show ?thesis by blast
qed

text \<open>
  C10. The conversion in \<open>windspeed_ms\<close> has no guard: with \<open>wind\<close> equal to \<open>"abc"\<close>
  it raises \<open>ValueError\<close>, while \<open>get_boundary_box\<close> catches the \<open>ValueError\<close> of the
  same conversion.
\<close>

theorem windspeed_ms_raises:
  "windspeed_ms (fresh_object\<lparr>stookwijzer := bad_wind_payload\<rparr>) = Inl ValueError
   \<and> get_boundary_box (PyStr ''abc'') (PyInt 400000) = Inr PyNone"
  by code_simp

subsection \<open>The bounding box\<close>

lemma digit_char_is_digit: "0 \<le> d \<Longrightarrow> d < 10 \<Longrightarrow> is_digit (digit_char d)"
proof -
  assume "0 \<le> d" "d < 10"
  then have "d = 0 \<or> d = 1 \<or> d = 2 \<or> d = 3 \<or> d = 4 \<or> d = 5 \<or> d = 6 \<or> d = 7 \<or> d = 8 \<or> d = 9"
    by arith
  moreover have "is_digit (digit_char 0)" "is_digit (digit_char 1)" "is_digit (digit_char 2)"
    "is_digit (digit_char 3)" "is_digit (digit_char 4)" "is_digit (digit_char 5)"
    "is_digit (digit_char 6)" "is_digit (digit_char 7)" "is_digit (digit_char 8)"
    "is_digit (digit_char 9)"
    by code_simp+
  ultimately show ?thesis by blast
qed

lemma show_nat_digits: "0 \<le> n \<Longrightarrow> list_all is_digit (show_nat n)"
proof (induction n rule: show_nat.induct)
  case (1 n)
  show ?case
  proof (cases "n < 10")
    case True
    with "1.prems" show ?thesis
      by (subst show_nat.simps) (simp add: digit_char_is_digit)
  next
    case False
    then have "list_all is_digit (show_nat (n div 10))"
      using "1.IH" "1.prems" by simp
    moreover have "is_digit (digit_char (n mod 10))"
      by (rule digit_char_is_digit) simp_all
    ultimately show ?thesis
      using False by (subst show_nat.simps) simp
  qed
qed

lemma show_nat_length: "0 \<le> n \<Longrightarrow> n < 10 ^ Suc k \<Longrightarrow> length (show_nat n) \<le> Suc k"
proof (induction k arbitrary: n)
  case 0
  then show ?case by (subst show_nat.simps) simp
next
  case (Suc k)
  show ?case
  proof (cases "n < 10")
    case True
    then show ?thesis by (subst show_nat.simps) simp
  next
    case False
    have "n div 10 < 10 ^ Suc k" using Suc.prems by simp
    moreover have "0 \<le> n div 10" using Suc.prems by simp
    ultimately have "length (show_nat (n div 10)) \<le> Suc k" by (rule Suc.IH [rotated])
    then show ?thesis using False by (subst show_nat.simps) simp
  qed
qed

lemma six_decimals_append:
  assumes "length fp = 6" "list_all is_digit fp"
  shows "six_decimals (pre @ ''.'' @ fp)"
proof -
  have nd: "\<not> is_digit CHR ''.''" by code_simp
  have "\<And>c. c \<in> set (rev fp) \<Longrightarrow> c \<noteq> CHR ''.''"
    using assms(2) nd by (auto simp: list_all_iff)
  then have "takeWhile (\<lambda>c. c \<noteq> CHR ''.'') (rev fp @ CHR ''.'' # rev pre)
             = rev fp @ takeWhile (\<lambda>c. c \<noteq> CHR ''.'') (CHR ''.'' # rev pre)"
    by (rule takeWhile_append2)
  then have "takeWhile (\<lambda>c. c \<noteq> CHR ''.'') (rev fp @ CHR ''.'' # rev pre) = rev fp"
    by simp
  then show ?thesis
    using assms by (simp add: six_decimals_def)
qed

lemma six_decimals_format: "0 \<le> m \<Longrightarrow> six_decimals (format_6f (Finite neg m))"
proof -
  assume m: "0 \<le> m"
  define n where "n = round_half_even (m * 1000000)"
  have "0 \<le> m * 1000000" using m by simp
  then have "0 \<le> \<lfloor>m * 1000000\<rfloor>" by simp
  then have n0: "0 \<le> n"
    by (auto simp: n_def round_half_even_def Let_def)
  let ?fp = "zfill 6 (show_nat (n mod 1000000))"
  have r: "0 \<le> n mod 1000000" "n mod 1000000 < 10 ^ Suc 5" by simp_all
  have len: "length (show_nat (n mod 1000000)) \<le> 6"
    using show_nat_length [OF r] by simp
  have dig: "list_all is_digit (show_nat (n mod 1000000))"
    using show_nat_digits [OF r(1)] .
  have z: "is_digit CHR ''0''" by code_simp
  have "length ?fp = 6" using len by (simp add: zfill_def)
  moreover have "list_all is_digit ?fp"
    using dig z by (auto simp: zfill_def list_all_iff)
  ultimately have "six_decimals (((if neg then ''-'' else []) @ show_nat (n div 1000000)) @ ''.'' @ ?fp)"
    by (rule six_decimals_append)
  then show ?thesis by (simp add: n_def Let_def)
qed

text \<open>
  C3 as stated fails: a coordinate that is an infinite float is written \<open>inf\<close>, with
  no fractional digits.
\<close>

theorem get_boundary_box_counterexample:
  "get_boundary_box (PyFloat (Infinite False)) (PyInt 0) = Inr (PyStr ''inf%2C0.000000%2Cinf%2C10.000000'')
   \<and> \<not> six_decimals (format_6f (Infinite False))"
  by code_simp

text \<open>
  C3, amended. When \<open>float\<close> reads both coordinates, \<open>get_boundary_box\<close> returns the
  renderings of \<open>x\<close>, \<open>y\<close>, \<open>x + 10.0\<close> and \<open>y + 10.0\<close> joined by \<open>%2C\<close>, and every one
  of the four that is finite is written with exactly six fractional digits (an
  infinity or a NaN is written by name); for 100000 and 400000 the result is
  \<open>100000.000000%2C400000.000000%2C100010.000000%2C400010.000000\<close>. It returns
  \<open>None\<close> when \<open>float\<close> of \<open>x\<close> raises \<open>ValueError\<close> or \<open>TypeError\<close>, and when \<open>float\<close>
  reads \<open>x\<close> and raises one of the two on \<open>y\<close>.
\<close>

theorem get_boundary_box_format:
  "(\<forall>fx fy. py_float x = Inr fx \<and> py_float y = Inr fy \<longrightarrow>
      get_boundary_box x y =
        Inr (PyStr (format_6f fx @ ''%2C'' @ format_6f fy @ ''%2C''
                    @ format_6f (float_add fx (Finite False 10)) @ ''%2C''
                    @ format_6f (float_add fy (Finite False 10)))))
   \<and> (\<forall>neg m. 0 \<le> m \<longrightarrow> six_decimals (format_6f (Finite neg m)))
   \<and> (py_float x = Inl ValueError \<or> py_float x = Inl TypeError \<longrightarrow> get_boundary_box x y = Inr PyNone)
   \<and> ((\<exists>fx. py_float x = Inr fx) \<and> (py_float y = Inl ValueError \<or> py_float y = Inl TypeError)
        \<longrightarrow> get_boundary_box x y = Inr PyNone)
   \<and> get_boundary_box (PyInt 100000) (PyInt 400000)
        = Inr (PyStr ''100000.000000%2C400000.000000%2C100010.000000%2C400010.000000'')"
proof -
  have a: "\<forall>fx fy. py_float x = Inr fx \<and> py_float y = Inr fy \<longrightarrow>
      get_boundary_box x y =
        Inr (PyStr (format_6f fx @ ''%2C'' @ format_6f fy @ ''%2C''
                    @ format_6f (float_add fx (Finite False 10)) @ ''%2C''
                    @ format_6f (float_add fy (Finite False 10))))"
    by (simp add: get_boundary_box_def boundary_box_body_def bind_err_def)
  have b: "\<forall>neg m. 0 \<le> m \<longrightarrow> six_decimals (format_6f (Finite neg m))"
    using six_decimals_format by blast
  have c: "py_float x = Inl ValueError \<or> py_float x = Inl TypeError \<longrightarrow> get_boundary_box x y = Inr PyNone"
    by (auto simp: get_boundary_box_def boundary_box_body_def bind_err_def)
  have d: "(\<exists>fx. py_float x = Inr fx) \<and> (py_float y = Inl ValueError \<or> py_float y = Inl TypeError)
        \<longrightarrow> get_boundary_box x y = Inr PyNone"
    by (auto simp: get_boundary_box_def boundary_box_body_def bind_err_def)
  have e: "get_boundary_box (PyInt 100000) (PyInt 400000)
        = Inr (PyStr ''100000.000000%2C400000.000000%2C100010.000000%2C400010.000000'')"
    by code_simp
  from a b c d e show ?thesis by blast
qed

theorem get_boundary_box_format_witness:
  "get_boundary_box (PyFloat (Finite False (311001 / 2))) (PyStr ''463000.25'')
     = Inr (PyStr ''155500.500000%2C463000.250000%2C155510.500000%2C463010.250000'')
   \<and> six_decimals ''155500.500000''
   \<and> get_boundary_box (PyStr ''abc'') (PyInt 400000) = Inr PyNone
   \<and> get_boundary_box (PyInt 100000) PyNone = Inr PyNone"
proof -
  let ?x = "PyFloat (Finite False (311001 / 2))" and ?y = "PyStr ''463000.25''"
  have fx: "py_float ?x = Inr (Finite False (311001 / 2))" by simp
  have fy: "py_float ?y = Inr (Finite False (1852001 / 4))" by code_simp
  have s: "format_6f (Finite False (311001 / 2)) @ ''%2C'' @ format_6f (Finite False (1852001 / 4)) @ ''%2C''
           @ format_6f (float_add (Finite False (311001 / 2)) (Finite False 10)) @ ''%2C''
           @ format_6f (float_add (Finite False (1852001 / 4)) (Finite False 10))
           = ''155500.500000%2C463000.250000%2C155510.500000%2C463010.250000''" by code_simp
  have t: "format_6f (Finite False (311001 / 2)) = ''155500.500000''" by code_simp
  have p: "(0::rat) \<le> 311001 / 2" by simp
  have e1: "py_float (PyStr ''abc'') = Inl ValueError" by code_simp
  have e2: "py_float (PyInt 100000) = Inr (Finite False 100000)" by code_simp
  have e3: "py_float PyNone = Inl TypeError" by simp
  have 1: "get_boundary_box ?x ?y = Inr (PyStr ''155500.500000%2C463000.250000%2C155510.500000%2C463010.250000'')"
    using get_boundary_box_format [of ?x ?y] fx fy s by metis
  have 2: "six_decimals ''155500.500000''"
    using get_boundary_box_format [of ?x ?y] p t by metis
  have 3: "get_boundary_box (PyStr ''abc'') (PyInt 400000) = Inr PyNone"
    using get_boundary_box_format [of "PyStr ''abc''" "PyInt 400000"] e1 by blast
  have 4: "get_boundary_box (PyInt 100000) PyNone = Inr PyNone"
    using get_boundary_box_format [of "PyInt 100000" PyNone] e2 e3 by blast
  from 1 2 3 4 show ?thesis by blast
qed

subsection \<open>The forecast series\<close>

lemma get_forecast_at_offset_cases:
  "(\<forall>e. plus_hours rt off = Inl e \<longrightarrow> get_forecast_at_offset sw rt off adv = Inl e)
   \<and> (\<forall>t. plus_hours rt off = Inr t \<longrightarrow>
         (\<exists>kv. get_forecast_at_offset sw rt off adv
                 = Inr (PyDict [(''datetime'', PyStr (isoformat t)), kv])))"
proof -
  obtain s1 where s1: "get_property sw (''advies_'' @ show_int off) = Inr s1"
    using get_property_Inr by blast
  obtain s2 where s2: "get_property sw (''alert_'' @ show_int off) = Inr s2"
    using get_property_Inr by blast
  show ?thesis
    using s1 s2 by (cases adv) (auto simp: get_forecast_at_offset_def bind_err_def)
qed

lemma forecast_loop_stamps:
  "(\<forall>e. stamps rt offs = Inl e \<longrightarrow> forecast_loop sw rt adv offs acc = Inl e)
   \<and> (\<forall>ss. stamps rt offs = Inr ss \<longrightarrow>
         (\<exists>es. forecast_loop sw rt adv offs acc = Inr (acc @ es)
               \<and> map (\<lambda>en. getitem_str en ''datetime'') es = map (\<lambda>s. Inr (PyStr s)) ss))"
proof (induction offs arbitrary: acc)
  case Nil
  then show ?case by simp
next
  case (Cons off offs)
  show ?case
  proof (cases "plus_hours rt off")
    case (Inl e)
    then show ?thesis
      using get_forecast_at_offset_cases [of rt off sw adv]
      by (simp add: bind_err_def)
  next
    case (Inr t)
    then obtain kv where en: "get_forecast_at_offset sw rt off adv
        = Inr (PyDict [(''datetime'', PyStr (isoformat t)), kv])"
      using get_forecast_at_offset_cases [of rt off sw adv] by blast
    let ?en = "PyDict [(''datetime'', PyStr (isoformat t)), kv]"
    have d: "getitem_str ?en ''datetime'' = Inr (PyStr (isoformat t))" by simp
    show ?thesis
    proof (cases "stamps rt offs")
      case (Inl e)
      then show ?thesis
        using Cons.IH [of "acc @ [?en]"] Inr en by (simp add: bind_err_def)
    next
      case (Inr ss)
      then obtain es where es: "forecast_loop sw rt adv offs (acc @ [?en]) = Inr ((acc @ [?en]) @ es)"
          "map (\<lambda>en. getitem_str en ''datetime'') es = map (\<lambda>s. Inr (PyStr s)) ss"
        using Cons.IH [of "acc @ [?en]"] by blast
      have "forecast_loop sw rt adv (off # offs) acc = Inr (acc @ (?en # es))"
        using en es(1) by (simp add: bind_err_def)
      moreover have "map (\<lambda>en. getitem_str en ''datetime'') (?en # es)
          = map (\<lambda>s. Inr (PyStr s)) (isoformat t # ss)"
        using es(2) d by simp
      moreover have "stamps rt (off # offs) = Inr (isoformat t # ss)"
        using \<open>plus_hours rt off = Inr t\<close> Inr by (simp add: bind_err_def)
      ultimately show ?thesis by auto
    qed
  qed
qed

lemma get_forecast_array_stamps:
  "(\<forall>e. forecast_stamps tz sw = Inl e \<longrightarrow> get_forecast_array tz sw adv = Inl e)
   \<and> (forecast_stamps tz sw = Inr None \<longrightarrow> get_forecast_array tz sw adv = Inr PyNone)
   \<and> (\<forall>ss. forecast_stamps tz sw = Inr (Some ss) \<longrightarrow>
         (\<exists>es. get_forecast_array tz sw adv = Inr (PyList es)
               \<and> map (\<lambda>en. getitem_str en ''datetime'') es = map (\<lambda>s. Inr (PyStr s)) ss))"
proof -
  obtain r where r: "get_property sw ''model_runtime'' = Inr r"
    using get_property_Inr by blast
  show ?thesis
  proof (cases "r = []")
    case True
    then show ?thesis
      using r by (simp add: forecast_stamps_def get_forecast_array_def bind_err_def)
  next
    case False
    show ?thesis
    proof (cases "strptime r")
      case (Inl e)
      then show ?thesis
        using r False by (simp add: forecast_stamps_def get_forecast_array_def bind_err_def)
    next
      case (Inr dt)
      note dt = this
      show ?thesis
      proof (cases "tz dt")
        case (Inl e)
        then show ?thesis
          using r False dt by (simp add: forecast_stamps_def get_forecast_array_def bind_err_def)
      next
        case (Inr l)
        note l = this
        show ?thesis
        proof (cases "stamps l (py_range 2 25 2)")
          case (Inl e)
          then have "forecast_loop sw l adv (py_range 2 25 2) [] = Inl e"
            using forecast_loop_stamps [of l "py_range 2 25 2" sw adv "[]"] by blast
          then show ?thesis
            using r False dt l Inl
            by (simp add: forecast_stamps_def get_forecast_array_def bind_err_def)
        next
          case (Inr ss)
          then obtain es where es: "forecast_loop sw l adv (py_range 2 25 2) [] = Inr es"
              "map (\<lambda>en. getitem_str en ''datetime'') es = map (\<lambda>s. Inr (PyStr s)) ss"
            using forecast_loop_stamps [of l "py_range 2 25 2" sw adv "[]"] by auto
          then show ?thesis
            using r False dt l Inr
            by (simp add: forecast_stamps_def get_forecast_array_def bind_err_def)
        qed
      qed
    qed
  qed
qed

text \<open>
  C9. The two series are built on the same timestamps. \<open>forecast_advice\<close> raises
  exactly when \<open>forecast_alert\<close> raises, and with the same error; one is \<open>None\<close>
  exactly when the other is; and when both are lists (so whenever \<open>model_runtime\<close>
  is present and read) they have the same length and, index by index, the same
  \<open>datetime\<close> string.
\<close>

theorem forecast_series_aligned:
  "(\<forall>e. (forecast_advice tz self = Inl e) = (forecast_alert tz self = Inl e))
   \<and> ((forecast_advice tz self = Inr PyNone) = (forecast_alert tz self = Inr PyNone))
   \<and> (\<forall>xs. forecast_advice tz self = Inr (PyList xs) \<longrightarrow>
         (\<exists>ys. forecast_alert tz self = Inr (PyList ys)))
   \<and> (\<forall>xs ys. forecast_advice tz self = Inr (PyList xs) \<and> forecast_alert tz self = Inr (PyList ys)
         \<longrightarrow> length xs = length ys
             \<and> (\<forall>i < length xs. \<exists>s. getitem_str (xs ! i) ''datetime'' = Inr (PyStr s)
                                     \<and> getitem_str (ys ! i) ''datetime'' = Inr (PyStr s)))"
proof (cases "forecast_stamps tz (stookwijzer self)")
  case (Inl e)
  then have "forecast_advice tz self = Inl e" "forecast_alert tz self = Inl e"
    using get_forecast_array_stamps [of tz "stookwijzer self"]
    by (simp_all add: forecast_advice_def forecast_alert_def)
  then show ?thesis by simp
next
  case (Inr res)
  show ?thesis
  proof (cases res)
    case None
    then have "forecast_advice tz self = Inr PyNone" "forecast_alert tz self = Inr PyNone"
      using Inr get_forecast_array_stamps [of tz "stookwijzer self"]
      by (simp_all add: forecast_advice_def forecast_alert_def)
    then show ?thesis by simp
  next
    case (Some ss)
    obtain xs where xs: "forecast_advice tz self = Inr (PyList xs)"
        "map (\<lambda>en. getitem_str en ''datetime'') xs = map (\<lambda>s. Inr (PyStr s)) ss"
      using Inr Some get_forecast_array_stamps [of tz "stookwijzer self" True]
      unfolding forecast_advice_def by blast
    obtain ys where ys: "forecast_alert tz self = Inr (PyList ys)"
        "map (\<lambda>en. getitem_str en ''datetime'') ys = map (\<lambda>s. Inr (PyStr s)) ss"
      using Inr Some get_forecast_array_stamps [of tz "stookwijzer self" False]
      unfolding forecast_alert_def by blast
    have lx: "length xs = length ss" using xs(2) by (metis length_map)
    have ly: "length ys = length ss" using ys(2) by (metis length_map)
    have nth: "\<forall>i < length xs. getitem_str (xs ! i) ''datetime'' = Inr (PyStr (ss ! i))
                              \<and> getitem_str (ys ! i) ''datetime'' = Inr (PyStr (ss ! i))"
    proof (intro allI impI)
      fix i assume i: "i < length xs"
      have "map (\<lambda>en. getitem_str en ''datetime'') xs ! i = map (\<lambda>s. Inr (PyStr s)) ss ! i"
        using xs(2) by simp
      then have a: "getitem_str (xs ! i) ''datetime'' = Inr (PyStr (ss ! i))"
        using i lx by simp
      have "map (\<lambda>en. getitem_str en ''datetime'') ys ! i = map (\<lambda>s. Inr (PyStr s)) ss ! i"
        using ys(2) by simp
      then have b: "getitem_str (ys ! i) ''datetime'' = Inr (PyStr (ss ! i))"
        using i lx ly by simp
      from a b show "getitem_str (xs ! i) ''datetime'' = Inr (PyStr (ss ! i))
                     \<and> getitem_str (ys ! i) ''datetime'' = Inr (PyStr (ss ! i))" by simp
    qed
    show ?thesis
      using xs(1) ys(1) lx ly nth by auto
  qed
qed

theorem forecast_series_aligned_witness:
  "\<exists>xs ys. forecast_advice (fixed_zone 3600 3600)
               (fresh_object\<lparr>stookwijzer := forecast_payload ''01-01-2024 00:00''\<rparr>) = Inr (PyList xs)
     \<and> forecast_alert (fixed_zone 3600 3600)
               (fresh_object\<lparr>stookwijzer := forecast_payload ''01-01-2024 00:00''\<rparr>) = Inr (PyList ys)
     \<and> length xs = 12 \<and> length ys = 12
     \<and> getitem_str (xs ! 0) ''datetime'' = getitem_str (ys ! 0) ''datetime''"
proof -
  let ?tz = "fixed_zone 3600 3600"
  let ?obj = "fresh_object\<lparr>stookwijzer := forecast_payload ''01-01-2024 00:00''\<rparr>"
  have "case forecast_advice ?tz ?obj of Inr (PyList xs) \<Rightarrow> length xs = 12 | _ \<Rightarrow> False"
    by code_simp
  then obtain xs where xs: "forecast_advice ?tz ?obj = Inr (PyList xs)" "length xs = 12"
    by (auto split: sum.splits pyobj.splits)
  obtain ys where ys: "forecast_alert ?tz ?obj = Inr (PyList ys)"
    using forecast_series_aligned [of ?tz ?obj] xs(1) by blast
  have "length xs = length ys
        \<and> (\<forall>i < length xs. \<exists>s. getitem_str (xs ! i) ''datetime'' = Inr (PyStr s)
                                \<and> getitem_str (ys ! i) ''datetime'' = Inr (PyStr s))"
    using forecast_series_aligned [of ?tz ?obj] xs(1) ys by blast
  then have l: "length xs = length ys"
    and n: "\<forall>i < length xs. \<exists>s. getitem_str (xs ! i) ''datetime'' = Inr (PyStr s)
                                \<and> getitem_str (ys ! i) ''datetime'' = Inr (PyStr s)"
    by blast+
  have "0 < length xs" using xs(2) by simp
  then obtain s where "getitem_str (xs ! 0) ''datetime'' = Inr (PyStr s)"
      "getitem_str (ys ! 0) ''datetime'' = Inr (PyStr s)"
    using n by blast
  then have "getitem_str (xs ! 0) ''datetime'' = getitem_str (ys ! 0) ''datetime''" by simp
  moreover have "length ys = 12" using l xs(2) by simp
  ultimately show ?thesis using xs ys by blast
qed

lemma py_range_forecast: "py_range 2 25 2 = [2, 4, 6, 8, 10, 12, 14, 16, 18, 20, 22, 24]"
  by code_simp

lemma forecast_offsets_nth:
  "i < 12 \<Longrightarrow> [2, 4, 6, 8, 10, 12, 14, 16, 18, 20, 22, 24 :: int] ! i = 2 * int i + 2"
proof -
  assume i: "i < 12"
  have "[2, 4, 6, 8, 10, 12, 14, 16, 18, 20, 22, 24 :: int] = map (\<lambda>i. 2 * int i + 2) [0..<12]"
    by code_simp
  then show ?thesis using i by (simp only: nth_map_upt) simp
qed

lemma stamps_in_range:
  "(\<And>k. k \<in> set offs \<Longrightarrow> 0 \<le> wall l + k * 3600000000 \<and> wall l + k * 3600000000 \<le> max_wall)
   \<Longrightarrow> stamps l offs = Inr (map (\<lambda>k. isoformat (l\<lparr>wall := wall l + k * 3600000000\<rparr>)) offs)"
proof (induction offs)
  case Nil
  then show ?case by simp
next
  case (Cons k offs)
  have "0 \<le> wall l + k * 3600000000 \<and> wall l + k * 3600000000 \<le> max_wall"
    using Cons.prems by simp
  then have p: "plus_hours l k = Inr (l\<lparr>wall := wall l + k * 3600000000\<rparr>)"
    by (simp add: plus_hours_def Let_def)
  have "stamps l offs = Inr (map (\<lambda>k. isoformat (l\<lparr>wall := wall l + k * 3600000000\<rparr>)) offs)"
    using Cons.IH Cons.prems by simp
  with p show ?case by (simp add: bind_err_def)
qed

text \<open>
  C2 as stated fails: a \<open>model_runtime\<close> in the format, but in the last hours of
  the year 9999, gives no entries: adding the offset raises \<open>OverflowError\<close>.
\<close>

theorem get_forecast_array_counterexample:
  "strptime ''31-12-9999 23:00'' = Inr (naive 9999 12 31 23 0)
   \<and> get_forecast_array (fixed_zone 3600 3600) (forecast_payload ''31-12-9999 23:00'') True
       = Inl OverflowError"
  by code_simp

text \<open>
  C2, amended. \<open>get_forecast_array\<close> returns \<open>None\<close>, not an empty list, when
  \<open>model_runtime\<close> is absent or empty. When \<open>strptime\<close> reads it, the conversion to
  the zone of Amsterdam succeeds and the converted time plus 24 hours is still a
  \<open>datetime\<close> (not after the year 9999), it returns exactly 12 entries; entry \<open>i\<close>
  (from 0) carries the ISO text of the converted time plus \<open>2 i + 2\<close> hours, so the
  timestamps are those at 2, 4, \<open>\<dots>\<close>, 24 hours, strictly ascending.
\<close>

theorem get_forecast_array_series:
  "((\<exists>e. feature_property sw ''model_runtime'' = Inl e) \<longrightarrow> get_forecast_array tz sw adv = Inr PyNone)
   \<and> (get_property sw ''model_runtime'' = Inr [] \<longrightarrow> get_forecast_array tz sw adv = Inr PyNone)
   \<and> PyNone \<noteq> PyList []
   \<and> (\<forall>r dt l. get_property sw ''model_runtime'' = Inr r \<and> r \<noteq> [] \<and> strptime r = Inr dt
                \<and> tz dt = Inr l \<and> 0 \<le> wall l \<and> wall l + 24 * 3600000000 \<le> max_wall
         \<longrightarrow> (\<exists>es. get_forecast_array tz sw adv = Inr (PyList es) \<and> length es = 12
                   \<and> (\<forall>i < 12. getitem_str (es ! i) ''datetime''
                          = Inr (PyStr (isoformat (l\<lparr>wall := wall l + (2 * int i + 2) * 3600000000\<rparr>))))
                   \<and> (\<forall>i j. i < j \<and> j < 12 \<longrightarrow>
                          wall l + (2 * int i + 2) * 3600000000 < wall l + (2 * int j + 2) * 3600000000)))"
proof -
  have absent: "(\<exists>e. feature_property sw ''model_runtime'' = Inl e) \<longrightarrow> get_forecast_array tz sw adv = Inr PyNone"
    using get_property_cases [of sw "''model_runtime''"]
    by (auto simp: get_forecast_array_def bind_err_def)
  have empty: "get_property sw ''model_runtime'' = Inr [] \<longrightarrow> get_forecast_array tz sw adv = Inr PyNone"
    by (simp add: get_forecast_array_def bind_err_def)
  have series: "\<exists>es. get_forecast_array tz sw adv = Inr (PyList es) \<and> length es = 12
                   \<and> (\<forall>i < 12. getitem_str (es ! i) ''datetime''
                          = Inr (PyStr (isoformat (l\<lparr>wall := wall l + (2 * int i + 2) * 3600000000\<rparr>))))
                   \<and> (\<forall>i j. i < j \<and> j < 12 \<longrightarrow>
                          wall l + (2 * int i + 2) * 3600000000 < wall l + (2 * int j + 2) * 3600000000)"
    if h: "get_property sw ''model_runtime'' = Inr r" "r \<noteq> []" "strptime r = Inr dt"
        "tz dt = Inr l" "0 \<le> wall l" "wall l + 24 * 3600000000 \<le> max_wall" for r dt l
  proof -
    define offs :: "int list" where "offs = [2, 4, 6, 8, 10, 12, 14, 16, 18, 20, 22, 24]"
    define ss where "ss = map (\<lambda>k. isoformat (l\<lparr>wall := wall l + k * 3600000000\<rparr>)) offs"
    have lo: "length offs = 12" by (simp add: offs_def)
    have no: "\<And>i. i < 12 \<Longrightarrow> offs ! i = 2 * int i + 2"
      unfolding offs_def by (rule forecast_offsets_nth)
    have "\<And>k. k \<in> set offs \<Longrightarrow> 0 \<le> wall l + k * 3600000000 \<and> wall l + k * 3600000000 \<le> max_wall"
      using h(5) h(6) by (auto simp: offs_def)
    then have st: "stamps l offs = Inr ss"
      unfolding ss_def by (rule stamps_in_range)
    have pr: "py_range 2 25 2 = offs" by (simp add: py_range_forecast offs_def)
    have fs: "forecast_stamps tz sw = Inr (Some ss)"
      using h(1-4) st by (simp add: forecast_stamps_def bind_err_def pr)
    obtain es where es: "get_forecast_array tz sw adv = Inr (PyList es)"
        "map (\<lambda>en. getitem_str en ''datetime'') es = map (\<lambda>s. Inr (PyStr s)) ss"
      using get_forecast_array_stamps [of tz sw adv] fs by blast
    have "length (map (\<lambda>en. getitem_str en ''datetime'') es) = length (map (\<lambda>s. Inr (PyStr s) :: py_error + pyobj) ss)"
      using es(2) by simp
    then have len: "length es = 12" by (simp add: ss_def lo)
    have nth: "\<forall>i < 12. getitem_str (es ! i) ''datetime''
         = Inr (PyStr (isoformat (l\<lparr>wall := wall l + (2 * int i + 2) * 3600000000\<rparr>)))"
    proof (intro allI impI)
      fix i :: nat assume i: "i < 12"
      have "map (\<lambda>en. getitem_str en ''datetime'') es ! i = map (\<lambda>s. Inr (PyStr s)) ss ! i"
        using es(2) by simp
      moreover have "map (\<lambda>en. getitem_str en ''datetime'') es ! i = getitem_str (es ! i) ''datetime''"
        using i len by simp
      moreover have "map (\<lambda>s. Inr (PyStr s)) ss ! i
          = Inr (PyStr (isoformat (l\<lparr>wall := wall l + (offs ! i) * 3600000000\<rparr>)))"
        using i lo by (simp add: ss_def)
      ultimately show "getitem_str (es ! i) ''datetime''
         = Inr (PyStr (isoformat (l\<lparr>wall := wall l + (2 * int i + 2) * 3600000000\<rparr>)))"
        using no [OF i] by simp
    qed
    show ?thesis using es(1) len nth by auto
  qed
  from absent empty series show ?thesis by blast
qed

theorem get_forecast_array_series_witness:
  "(\<exists>es. get_forecast_array (fixed_zone 3600 3600) (forecast_payload ''01-01-2024 00:00'') True
           = Inr (PyList es)
         \<and> length es = 12
         \<and> getitem_str (es ! 0) ''datetime'' = Inr (PyStr ''2024-01-01T02:00:00+01:00'')
         \<and> getitem_str (es ! 11) ''datetime'' = Inr (PyStr ''2024-01-02T00:00:00+01:00''))
   \<and> get_forecast_array (fixed_zone 3600 3600) example_payload True = Inr PyNone"
proof -
  let ?tz = "fixed_zone 3600 3600"
  let ?sw = "forecast_payload ''01-01-2024 00:00''"
  let ?l = "\<lparr>wall = 63839664000000000, utcoffset = Some 3600\<rparr>"
  have r: "get_property ?sw ''model_runtime'' = Inr ''01-01-2024 00:00''" by code_simp
  have n: "''01-01-2024 00:00'' \<noteq> []" by simp
  have p: "strptime ''01-01-2024 00:00'' = Inr (naive 2024 1 1 0 0)" by code_simp
  have z: "?tz (naive 2024 1 1 0 0) = Inr ?l" by code_simp
  have b: "0 \<le> wall ?l" "wall ?l + 24 * 3600000000 \<le> max_wall"
    by (simp_all add: max_wall_def)
  have i0: "isoformat (?l\<lparr>wall := wall ?l + (2 * int 0 + 2) * 3600000000\<rparr>) = ''2024-01-01T02:00:00+01:00''"
    by code_simp
  have i11: "isoformat (?l\<lparr>wall := wall ?l + (2 * int 11 + 2) * 3600000000\<rparr>) = ''2024-01-02T00:00:00+01:00''"
    by code_simp
  obtain es where es: "get_forecast_array ?tz ?sw True = Inr (PyList es)" "length es = 12"
      "\<forall>i < 12. getitem_str (es ! i) ''datetime''
          = Inr (PyStr (isoformat (?l\<lparr>wall := wall ?l + (2 * int i + 2) * 3600000000\<rparr>)))"
    using get_forecast_array_series [of ?sw ?tz True] r n p z b by blast
  have e0: "getitem_str (es ! 0) ''datetime'' = Inr (PyStr ''2024-01-01T02:00:00+01:00'')"
    using es(3) i0 by (metis zero_less_numeral)
  have "(11::nat) < 12" by simp
  then have e11: "getitem_str (es ! 11) ''datetime'' = Inr (PyStr ''2024-01-02T00:00:00+01:00'')"
    using es(3) i11 by metis
  have a: "feature_property example_payload ''model_runtime'' = Inl KeyError" by code_simp
  have none: "get_forecast_array ?tz example_payload True = Inr PyNone"
    using get_forecast_array_series [of example_payload ?tz True] a by blast
  from es(1) es(2) e0 e11 none show ?thesis by blast
qed

end
